theory Spec2Isabelle
  imports Complex_Main "HOL-Library.Word"
begin

section \<open>JavaScript values\<close>

text \<open>
  The route handler and the page work on untyped data (\<^verbatim>\<open>any\<close>): the search
  results and the parsed response body. They are modelled as a datatype of JavaScript
  values. An object is an association list; the first binding of a key is its property.
  Text that is only copied or compared is a \<open>string\<close>; numbers are real numbers with
  \<open>NaN\<close> apart (they are only copied and tested for truthiness).
\<close>

datatype jsval =
    JUndefined
  | JNull
  | JBool bool
  | JNum real
  | JNaN
  | JStr string
  | JArr "jsval list"
  | JObj "(string \<times> jsval) list"

text \<open>\<^verbatim>\<open>!v\<close> is \<open>\<not> truthy v\<close>.\<close>

fun truthy :: "jsval \<Rightarrow> bool" where
  "truthy JUndefined = False"
| "truthy JNull = False"
| "truthy (JBool b) = b"
| "truthy (JNum r) = (r \<noteq> 0)"
| "truthy JNaN = False"
| "truthy (JStr s) = (s \<noteq> [])"
| "truthy (JArr xs) = True"
| "truthy (JObj kvs) = True"

fun nullish :: "jsval \<Rightarrow> bool" where
  "nullish JUndefined = True"
| "nullish JNull = True"
| "nullish v = False"

text \<open>The decimal name of an array index, as a property key (\<^verbatim>\<open>o[0]\<close> is \<^verbatim>\<open>o["0"]\<close>).\<close>

fun index_key :: "nat \<Rightarrow> string" where
  "index_key n =
     (if n < 10 then [''0123456789'' ! n]
      else index_key (n div 10) @ [''0123456789'' ! (n mod 10)])"

declare index_key.simps [simp del]

text \<open>\<^verbatim>\<open>v.k\<close> on a value that is neither \<^verbatim>\<open>null\<close> nor \<^verbatim>\<open>undefined\<close>, for a key
  that no prototype defines (\<^verbatim>\<open>organic_results\<close>, \<^verbatim>\<open>snippet\<close>, \<^verbatim>\<open>detail\<close>, ...).\<close>

fun js_get :: "jsval \<Rightarrow> string \<Rightarrow> jsval" where
  "js_get (JObj kvs) k = (case map_of kvs k of Some v \<Rightarrow> v | None \<Rightarrow> JUndefined)"
| "js_get v k = JUndefined"

text \<open>\<^verbatim>\<open>v[i]\<close> on a value that is neither \<^verbatim>\<open>null\<close> nor \<^verbatim>\<open>undefined\<close>.\<close>

fun js_index :: "jsval \<Rightarrow> nat \<Rightarrow> jsval" where
  "js_index (JArr xs) i = (if i < length xs then xs ! i else JUndefined)"
| "js_index (JStr s) i = (if i < length s then JStr [s ! i] else JUndefined)"
| "js_index (JObj kvs) i = js_get (JObj kvs) (index_key i)"
| "js_index v i = JUndefined"

text \<open>Optional chaining \<^verbatim>\<open>v?.k\<close> and \<^verbatim>\<open>v?.[i]\<close>, and \<^verbatim>\<open>a || b\<close>.\<close>

definition opt_get :: "jsval \<Rightarrow> string \<Rightarrow> jsval" where
  "opt_get v k = (if nullish v then JUndefined else js_get v k)"

definition opt_index :: "jsval \<Rightarrow> nat \<Rightarrow> jsval" where
  "opt_index v i = (if nullish v then JUndefined else js_index v i)"

definition js_or :: "jsval \<Rightarrow> jsval \<Rightarrow> jsval" where
  "js_or a b = (if truthy a then a else b)"

section \<open>The route handler (route.ts)\<close>

subsection \<open>parseSearchResults\<close>

record parsed_results =
  causes :: jsval
  precautions :: jsval
  solutions :: jsval

definition parseSearchResults :: "jsval \<Rightarrow> parsed_results" where
  "parseSearchResults searchResults =
     \<lparr> causes = js_or (opt_get (opt_index (opt_get searchResults ''organic_results'') 0) ''snippet'') (JStr ''N/A''),
       precautions = js_or (opt_get (opt_index (opt_get searchResults ''organic_results'') 1) ''snippet'') (JStr ''N/A''),
       solutions = js_or (opt_get (opt_index (opt_get searchResults ''organic_results'') 2) ''snippet'') (JStr ''N/A'') \<rparr>"

subsection \<open>Requests, providers and responses\<close>

text \<open>A thrown value: an \<^verbatim>\<open>Error\<close> instance with its name and message, or any other value.\<close>

datatype js_thrown =
    JsError (err_name: string) (err_message: string)
  | JsThrown jsval

text \<open>A form entry is a \<^verbatim>\<open>File\<close> or a string of UTF-16 code units.\<close>

type_synonym utf16 = "16 word list"

record js_file =
  file_name :: string
  file_size :: nat

datatype form_entry = FileEntry js_file | TextEntry utf16

type_synonym form_data = "(string \<times> form_entry) list"

text \<open>\<^verbatim>\<open>formData.get(name)\<close>: the first value of that name, or \<^verbatim>\<open>null\<close>.\<close>

definition form_get :: "form_data \<Rightarrow> string \<Rightarrow> form_entry option" where
  "form_get fd k = map_of fd k"

text \<open>\<^verbatim>\<open>!entry\<close> for the result of \<^verbatim>\<open>formData.get\<close>.\<close>

fun entry_falsy :: "form_entry option \<Rightarrow> bool" where
  "entry_falsy None = True"
| "entry_falsy (Some (FileEntry f)) = False"
| "entry_falsy (Some (TextEntry t)) = (t = [])"

text \<open>One element of Hugging Face's image classification output.\<close>

record classification =
  label :: string
  score :: real

text \<open>
  The two external calls of the handler are parameters: each returns a value or throws.
  \<open>hf_imageClassification\<close> takes the image and the model name, \<open>google_web_search\<close>
  the query.
\<close>

record providers =
  hf_imageClassification :: "form_entry \<Rightarrow> string \<Rightarrow> js_thrown + classification list"
  google_web_search :: "string \<Rightarrow> js_thrown + jsval"

text \<open>A request is what \<^verbatim>\<open>await req.formData()\<close> gives: a form, or it throws.\<close>

record request =
  req_formData :: "js_thrown + form_data"

record response =
  status :: nat
  body :: "(string \<times> jsval) list"

text \<open>\<^verbatim>\<open>NextResponse.json(obj, {status})\<close>: the JSON text of an object has no member for a
  property whose value is \<^verbatim>\<open>undefined\<close>.\<close>

definition NextResponse_json :: "(string \<times> jsval) list \<Rightarrow> nat \<Rightarrow> response" where
  "NextResponse_json obj st = \<lparr> status = st, body = filter (\<lambda>(k, v). v \<noteq> JUndefined) obj \<rparr>"

text \<open>The handler's result: the response and what \<^verbatim>\<open>console.error\<close> received.\<close>

record post_result =
  response :: response
  console :: "js_thrown list"

subsection \<open>POST\<close>

text \<open>The \<^verbatim>\<open>catch\<close> block: log the error, answer 500 with a fixed message.\<close>

definition caught :: "js_thrown \<Rightarrow> post_result" where
  "caught e =
     \<lparr> response = NextResponse_json [(''error'', JStr ''Something went wrong'')] 500,
       console = [e] \<rparr>"

text \<open>Reading \<^verbatim>\<open>topResult.label\<close> when \<^verbatim>\<open>classificationResult[0]\<close> is \<^verbatim>\<open>undefined\<close>.\<close>

definition undefined_label_error :: js_thrown where
  "undefined_label_error =
     JsError ''TypeError'' ''Cannot read properties of undefined''"

definition imageClassificationModel :: string where
  "imageClassificationModel = ''google/vit-base-patch16-224''"

definition search_query :: "string \<Rightarrow> string" where
  "search_query diseaseName = ''causes, precautions, and solutions for '' @ diseaseName"

definition no_image :: post_result where
  "no_image =
     \<lparr> response = NextResponse_json [(''error'', JStr ''No image provided'')] 400,
       console = [] \<rparr>"

definition POST :: "providers \<Rightarrow> request \<Rightarrow> post_result" where
  "POST env req =
     (case req_formData req of
        Inl e \<Rightarrow> caught e
      | Inr formData \<Rightarrow>
          (case form_get formData ''image'' of
             None \<Rightarrow> no_image
           | Some imageFile \<Rightarrow>
               if entry_falsy (Some imageFile) then no_image
               else
                 (case hf_imageClassification env imageFile imageClassificationModel of
                    Inl e \<Rightarrow> caught e
                  | Inr classificationResult \<Rightarrow>
                      (case classificationResult of
                         [] \<Rightarrow> caught undefined_label_error
                       | topResult # rest \<Rightarrow>
                           (let diseaseName = label topResult in
                            case google_web_search env (search_query diseaseName) of
                              Inl e \<Rightarrow> caught e
                            | Inr searchResults \<Rightarrow>
                                (let parsed = parseSearchResults searchResults in
                                 \<lparr> response = NextResponse_json
                                       [(''diseaseName'', JStr diseaseName),
                                        (''identificationConfidence'', JNum (score topResult)),
                                        (''causes'', causes parsed),
                                        (''precautions'', precautions parsed),
                                        (''solutions'', solutions parsed)] 200,
                                   console = [] \<rparr>))))))"

section \<open>The disease detection page (page.tsx)\<close>

subsection \<open>State and environment\<close>

text \<open>The fields of \<^verbatim>\<open>DiseaseInfo\<close> are declared as strings, but they are copied from the
  parsed response body, which is untyped.\<close>

record DiseaseInfo =
  diseaseName :: jsval
  causes :: jsval
  precautions :: jsval
  solutions :: jsval

record page_state =
  diseaseInfo :: "DiseaseInfo option"
  isPending :: bool
  error :: "string option"
  geminiKey :: utf16

definition initial_page_state :: page_state where
  "initial_page_state = \<lparr> diseaseInfo = None, isPending = False, error = None, geminiKey = [] \<rparr>"

text \<open>What \<^verbatim>\<open>fetch\<close> resolves to: \<^verbatim>\<open>response.ok\<close> and the outcome of
  \<^verbatim>\<open>await response.json()\<close>.\<close>

record http_response =
  ok :: bool
  json :: "js_thrown + jsval"

text \<open>
  The page's environment: the configured API URL, \<^verbatim>\<open>fetch\<close> (given the URL and the
  form it posts; it resolves to a response or rejects, with an \<^verbatim>\<open>AbortError\<close> when the
  abort controller's timer fires first), and \<^verbatim>\<open>String(v)\<close> for a value that is not a
  string (the message of \<^verbatim>\<open>new Error(v)\<close>).
\<close>

record client_env =
  NEXT_PUBLIC_API_URL :: "string option"
  fetch :: "string \<Rightarrow> form_data \<Rightarrow> js_thrown + http_response"
  toString :: "jsval \<Rightarrow> string"

subsection \<open>The outgoing request\<close>

text \<open>ECMAScript's \<^verbatim>\<open>WhiteSpace\<close> and \<^verbatim>\<open>LineTerminator\<close> code points, all in the basic
  plane, so each is one UTF-16 code unit.\<close>

definition isWhiteSpace :: "16 word \<Rightarrow> bool" where
  "isWhiteSpace c \<longleftrightarrow>
     c \<in> {0x09, 0x0A, 0x0B, 0x0C, 0x0D, 0x20, 0xA0, 0x1680, 0x2028, 0x2029,
          0x202F, 0x205F, 0x3000, 0xFEFF} \<or> (0x2000 \<le> c \<and> c \<le> 0x200A)"

text \<open>\<^verbatim>\<open>String.prototype.trim\<close>.\<close>

definition trim :: "utf16 \<Rightarrow> utf16" where
  "trim s = rev (dropWhile isWhiteSpace (rev (dropWhile isWhiteSpace s)))"

text \<open>\<^verbatim>\<open>FormData.append\<close> takes a \<^verbatim>\<open>USVString\<close>: a surrogate code unit that is not part
  of a pair (a high surrogate followed by a low one) is replaced by U+FFFD.\<close>

definition isHighSurrogate :: "16 word \<Rightarrow> bool" where
  "isHighSurrogate c \<longleftrightarrow> 0xD800 \<le> c \<and> c \<le> 0xDBFF"

definition isLowSurrogate :: "16 word \<Rightarrow> bool" where
  "isLowSurrogate c \<longleftrightarrow> 0xDC00 \<le> c \<and> c \<le> 0xDFFF"

fun toUSVString :: "utf16 \<Rightarrow> utf16" where
  "toUSVString [] = []"
| "toUSVString [c] = (if isHighSurrogate c \<or> isLowSurrogate c then [0xFFFD] else [c])"
| "toUSVString (c # d # cs) =
     (if isHighSurrogate c then
        (if isLowSurrogate d then c # d # toUSVString cs else 0xFFFD # toUSVString (d # cs))
      else if isLowSurrogate c then 0xFFFD # toUSVString (d # cs)
      else c # toUSVString (d # cs))"

definition uploadFormData :: "js_file \<Rightarrow> utf16 \<Rightarrow> form_data" where
  "uploadFormData imageFile key =
     [(''image'', FileEntry imageFile)] @
     (if key \<noteq> [] \<and> trim key \<noteq> [] then [(''api_key'', TextEntry (toUSVString key))] else [])"

definition apiUrl :: "client_env \<Rightarrow> string" where
  "apiUrl env =
     (case NEXT_PUBLIC_API_URL env of
        Some u \<Rightarrow> if u \<noteq> [] then u else ''http://localhost:8000''
      | None \<Rightarrow> ''http://localhost:8000'')"

subsection \<open>handleSubmit\<close>

text \<open>\<^verbatim>\<open>v.k\<close>: reading a property of \<^verbatim>\<open>null\<close> or \<^verbatim>\<open>undefined\<close> throws a TypeError.\<close>

definition property_of :: "jsval \<Rightarrow> string \<Rightarrow> js_thrown + jsval" where
  "property_of v k =
     (if nullish v then Inl (JsError ''TypeError'' (''Cannot read properties of null or undefined, reading '' @ k))
      else Inr (js_get v k))"

text \<open>The message of \<^verbatim>\<open>new Error(v)\<close> for a \<open>v\<close> other than \<^verbatim>\<open>undefined\<close>.\<close>

definition new_Error :: "client_env \<Rightarrow> jsval \<Rightarrow> js_thrown" where
  "new_Error env v = JsError ''Error'' (case v of JStr s \<Rightarrow> s | _ \<Rightarrow> toString env v)"

text \<open>The body of the \<^verbatim>\<open>try\<close> block: the value passed to \<^verbatim>\<open>setDiseaseInfo\<close>, or what is
  thrown.\<close>

definition detect_request :: "client_env \<Rightarrow> js_file \<Rightarrow> utf16 \<Rightarrow> js_thrown + DiseaseInfo" where
  "detect_request env imageFile key =
     (case fetch env (apiUrl env @ ''/detect-disease'') (uploadFormData imageFile key) of
        Inl e \<Rightarrow> Inl e
      | Inr resp \<Rightarrow>
          if \<not> ok resp then
            (let errorData =
                   (case json resp of
                      Inl e \<Rightarrow> JObj [(''detail'', JStr ''An unknown error occurred.'')]
                    | Inr v \<Rightarrow> v)
             in case property_of errorData ''detail'' of
                  Inl e \<Rightarrow> Inl e
                | Inr detail \<Rightarrow>
                    Inl (new_Error env (js_or detail (JStr ''Failed to detect plant disease.''))))
          else
            (case json resp of
               Inl e \<Rightarrow> Inl e
             | Inr data \<Rightarrow>
                 (case property_of data ''diseaseName'' of
                    Inl e \<Rightarrow> Inl e
                  | Inr name \<Rightarrow>
                      if \<not> truthy name \<or> \<not> truthy (js_get data ''causes'') \<or>
                         \<not> truthy (js_get data ''precautions'') \<or> \<not> truthy (js_get data ''solutions'')
                      then Inl (new_Error env (JStr ''Invalid response from disease detection API.''))
                      else Inr \<lparr> diseaseName = js_get data ''diseaseName'',
                                 causes = js_get data ''causes'',
                                 precautions = js_get data ''precautions'',
                                 solutions = js_get data ''solutions'' \<rparr>)))"

text \<open>The \<^verbatim>\<open>catch\<close> block's message.\<close>

definition errorMessage :: "js_thrown \<Rightarrow> string" where
  "errorMessage e =
     (case e of
        JsError name msg \<Rightarrow>
          if name = ''AbortError'' then ''Request timed out. Please check your connection and try again.''
          else msg
      | JsThrown v \<Rightarrow> ''Could not detect disease. Please try again later.'')"

definition handleSubmit :: "client_env \<Rightarrow> page_state \<Rightarrow> form_data \<Rightarrow> page_state" where
  "handleSubmit env st formData =
     (case form_get formData ''image'' of
        Some (FileEntry imageFile) \<Rightarrow>
          if file_size imageFile = 0 then st\<lparr> error := Some ''Please select an image to upload.'' \<rparr>
          else
            (case detect_request env imageFile (geminiKey st) of
               Inr info \<Rightarrow> st\<lparr> isPending := False, error := None, diseaseInfo := Some info \<rparr>
             | Inl e \<Rightarrow> st\<lparr> isPending := False, error := Some (errorMessage e), diseaseInfo := None \<rparr>)
      | _ \<Rightarrow> st\<lparr> error := Some ''Please select an image to upload.'' \<rparr>)"

section \<open>The provider chain\<close>

text \<open>
  Modelled from the spec: the provider chain of the detect-disease operation lives in the
  backend (backend/main.py), which is not among the sources; only its caller, the page's
  \<open>handleSubmit\<close>, is. The chain holds a free provider, always attempted and needing no
  credential, and an enhanced provider, attempted only if a credential is supplied:
  (1) if a credential is supplied, attempt the enhanced provider first and, on success,
  return its output tagged as enhanced; (2) on its failure, or when no credential is
  supplied, attempt the free provider; (3) if the free provider also fails, the chain
  fails with \<open>AllProvidersFailedError\<close>. A provider call is a parameter: its raw output,
  or the way it failed.
\<close>

datatype provider_kind = FreeProvider | EnhancedProvider

datatype provider_failure = NetworkError | MalformedResponse | Timeout | InvalidCredential

datatype chain_error = AllProvidersFailedError

record 'raw chain_result =
  attempted :: "provider_kind list"
  outcome :: "chain_error + (provider_kind \<times> 'raw)"

text \<open>Modelled from the spec: steps (2) and (3), the attempt of the free provider after
  the providers in \<open>tried\<close>.\<close>

definition attempt_free ::
  "provider_kind list \<Rightarrow> (provider_failure + 'raw) \<Rightarrow> 'raw chain_result" where
  "attempt_free tried free =
     (case free of
        Inr out \<Rightarrow> \<lparr> attempted = tried @ [FreeProvider], outcome = Inr (FreeProvider, out) \<rparr>
      | Inl f \<Rightarrow> \<lparr> attempted = tried @ [FreeProvider], outcome = Inl AllProvidersFailedError \<rparr>)"

text \<open>Modelled from the spec: the chain's \<open>detect\<close>, steps (1) to (3), given the optional
  credential.\<close>

definition detect ::
  "(string \<Rightarrow> provider_failure + 'raw) \<Rightarrow> (provider_failure + 'raw) \<Rightarrow> string option
     \<Rightarrow> 'raw chain_result" where
  "detect enhanced free credential =
     (case credential of
        Some c \<Rightarrow>
          (case enhanced c of
             Inr out \<Rightarrow> \<lparr> attempted = [EnhancedProvider], outcome = Inr (EnhancedProvider, out) \<rparr>
           | Inl f \<Rightarrow> attempt_free [EnhancedProvider] free)
      | None \<Rightarrow> attempt_free [] free)"

section \<open>The flower classifier\<close>

text \<open>
  Modelled from the spec: the flower classifier lives in the backend (backend/main.py),
  which is not among the sources; only the page that shows its prediction and confidence
  is. A class probability vector is the ordered list of the labels with their
  probabilities (its entries have the shape of a classification entry). A flower
  prediction is derived from it: the top label, its probability as the confidence, and the
  full vector.
\<close>

record FlowerPrediction =
  prediction :: string
  confidence :: real
  probabilities :: "classification list"

text \<open>Modelled from the spec: the top entry of a vector, scanned from the left with the
  best entry so far; a later entry replaces it only with a greater probability.\<close>

fun top_from :: "classification \<Rightarrow> classification list \<Rightarrow> classification" where
  "top_from best [] = best"
| "top_from best (e # es) = top_from (if score best < score e then e else best) es"

text \<open>Modelled from the spec: the prediction derived from a vector; the fixed label set is
  not empty, and an empty vector has no prediction.\<close>

definition flower_prediction :: "classification list \<Rightarrow> FlowerPrediction option" where
  "flower_prediction v =
     (case v of
        [] \<Rightarrow> None
      | e # es \<Rightarrow>
          Some \<lparr> prediction = label (top_from e es), confidence = score (top_from e es),
                 probabilities = v \<rparr>)"

section \<open>Notions used in the properties\<close>

text \<open>The route handler's one provider pipeline fails when the classification call throws,
  when it returns no result, or when the search call throws.\<close>

definition provider_failed :: "providers \<Rightarrow> form_entry \<Rightarrow> bool" where
  "provider_failed env imageFile =
     (case hf_imageClassification env imageFile imageClassificationModel of
        Inl e \<Rightarrow> True
      | Inr [] \<Rightarrow> True
      | Inr (topResult # rest) \<Rightarrow> isl (google_web_search env (search_query (label topResult))))"

text \<open>The spec's response shape: exactly the four fields, each a string.\<close>

definition is_string :: "jsval \<Rightarrow> bool" where
  "is_string v = (case v of JStr s \<Rightarrow> True | _ \<Rightarrow> False)"

definition four_field_shape :: "(string \<times> jsval) list \<Rightarrow> bool" where
  "four_field_shape b \<longleftrightarrow>
     distinct (map fst b) \<and>
     set (map fst b) = {''diseaseName'', ''causes'', ''precautions'', ''solutions''} \<and>
     list_all (\<lambda>(k, v). is_string v) b"

text \<open>The spec's positional mapping: field \<open>i\<close> is the snippet of search result \<open>i\<close>, and
  the placeholder stands in when the provider supplied none (no such result, no snippet in
  it, or an empty one).\<close>

definition supplied_snippet :: "jsval list \<Rightarrow> nat \<Rightarrow> jsval option" where
  "supplied_snippet results i =
     (if i < length results then
        (case results ! i of
           JObj kvs \<Rightarrow>
             (case map_of kvs ''snippet'' of
                Some v \<Rightarrow> if truthy v then Some v else None
              | None \<Rightarrow> None)
         | _ \<Rightarrow> None)
      else None)"

definition positional_field :: "jsval list \<Rightarrow> nat \<Rightarrow> jsval" where
  "positional_field results i =
     (case supplied_snippet results i of Some v \<Rightarrow> v | None \<Rightarrow> JStr ''N/A'')"

text \<open>The spec's confidence and prediction: the maximum entry of the probability vector
  and the label of the first entry that attains it.\<close>

definition max_probability :: "classification list \<Rightarrow> real" where
  "max_probability rs = Max (set (map score rs))"

definition argmax_label :: "classification list \<Rightarrow> string option" where
  "argmax_label rs = map_option label (find (\<lambda>r. score r = max_probability rs) rs)"

definition descending :: "classification list \<Rightarrow> bool" where
  "descending rs = sorted_wrt (\<lambda>a b. score b \<le> score a) rs"

text \<open>A report with all four fields present (and none empty).\<close>

definition all_four_present :: "DiseaseInfo \<Rightarrow> bool" where
  "all_four_present info \<longleftrightarrow>
     truthy (diseaseName info) \<and> truthy (causes info) \<and>
     truthy (precautions info) \<and> truthy (solutions info)"

definition shows_valid_report :: "page_state \<Rightarrow> bool" where
  "shows_valid_report st = (case diseaseInfo st of None \<Rightarrow> True | Some info \<Rightarrow> all_four_present info)"

text \<open>The object the handler answers with on success.\<close>

definition report_body :: "classification \<Rightarrow> jsval \<Rightarrow> (string \<times> jsval) list" where
  "report_body topResult searchResults =
     [(''diseaseName'', JStr (label topResult)),
      (''identificationConfidence'', JNum (score topResult)),
      (''causes'', parsed_results.causes (parseSearchResults searchResults)),
      (''precautions'', parsed_results.precautions (parseSearchResults searchResults)),
      (''solutions'', parsed_results.solutions (parseSearchResults searchResults))]"

text \<open>A response reports the top class of a classification result when its confidence is
  the maximum probability and its name the argmax label.\<close>

definition reports_top_class :: "response \<Rightarrow> classification list \<Rightarrow> bool" where
  "reports_top_class r rs \<longleftrightarrow>
     map_of (body r) ''identificationConfidence'' = Some (JNum (max_probability rs)) \<and>
     map_of (body r) ''diseaseName'' = map_option JStr (argmax_label rs)"

text \<open>The search provider's snippets are typed when each of the three that the handler reads
  is a string or absent.\<close>

definition string_or_absent :: "jsval \<Rightarrow> bool" where
  "string_or_absent v = (case v of JStr s \<Rightarrow> True | JUndefined \<Rightarrow> True | _ \<Rightarrow> False)"

definition snippets_are_strings :: "jsval \<Rightarrow> bool" where
  "snippets_are_strings searchResults =
     list_all (\<lambda>i. string_or_absent
                  (opt_get (opt_index (opt_get searchResults ''organic_results'') i) ''snippet''))
       [0, 1, 2]"

text \<open>The message of the page's check of the response body.\<close>

definition invalid_response :: string where
  "invalid_response = ''Invalid response from disease detection API.''"

section \<open>Concrete requests and providers\<close>

definition leaf_png :: js_file where
  "leaf_png = \<lparr> file_name = ''leaf.png'', file_size = 2048 \<rparr>"

definition request_with_key :: request where
  "request_with_key =
     \<lparr> req_formData = Inr [(''image'', FileEntry leaf_png),
                            (''api_key'', TextEntry [0x41, 0x49, 0x7A, 0x61])] \<rparr>"

definition request_free :: request where
  "request_free = \<lparr> req_formData = Inr [(''image'', FileEntry leaf_png)] \<rparr>"

definition two_snippets :: jsval where
  "two_snippets =
     JObj [(''organic_results'',
            JArr [JObj [(''title'', JStr ''Rust''), (''snippet'', JStr ''Caused by fungi.'')],
                  JObj [(''title'', JStr ''Care'')],
                  JObj [(''snippet'', JStr ''Remove affected leaves.'')]])]"

definition ordered_result :: "classification list" where
  "ordered_result = [\<lparr> label = ''leaf rust'', score = 0.9 \<rparr>, \<lparr> label = ''daisy'', score = 0.1 \<rparr>]"

definition providers_ok :: providers where
  "providers_ok =
     \<lparr> hf_imageClassification = (\<lambda>img model. Inr ordered_result),
       google_web_search = (\<lambda>query. Inr two_snippets) \<rparr>"

definition three_snippets :: jsval where
  "three_snippets =
     JObj [(''organic_results'',
            JArr [JObj [(''snippet'', JStr ''Caused by fungi.'')],
                  JObj [(''snippet'', JStr ''Water at the base.'')],
                  JObj [(''snippet'', JStr ''Remove affected leaves.'')]])]"

definition providers_empty_label :: providers where
  "providers_empty_label =
     \<lparr> hf_imageClassification = (\<lambda>img model. Inr [\<lparr> label = [], score = 0.9 \<rparr>]),
       google_web_search = (\<lambda>query. Inr three_snippets) \<rparr>"



definition providers_down :: providers where
  "providers_down =
     \<lparr> hf_imageClassification =
         (\<lambda>img model. Inl (JsError ''Error'' ''Invalid credentials in Authorization header'')),
       google_web_search = (\<lambda>query. Inl (JsError ''TypeError'' ''fetch failed'')) \<rparr>"

text \<open>The page: an API that answers every request with a given response, and responses
  with all four fields, with an empty name, and without solutions.\<close>

definition client_of :: "http_response \<Rightarrow> client_env" where
  "client_of r =
     \<lparr> NEXT_PUBLIC_API_URL = None, fetch = (\<lambda>url form. Inr r),
       toString = (\<lambda>v. ''[object Object]'') \<rparr>"

definition response_full :: http_response where
  "response_full =
     \<lparr> ok = True,
       json = Inr (JObj [(''diseaseName'', JStr ''Powdery Mildew''),
                         (''causes'', JStr ''Fungal spores.''),
                         (''precautions'', JStr ''Air circulation.''),
                         (''solutions'', JStr ''Fungicide.'')]) \<rparr>"

definition response_empty_name :: http_response where
  "response_empty_name =
     \<lparr> ok = True,
       json = Inr (JObj [(''diseaseName'', JStr []),
                         (''causes'', JStr ''Fungal spores.''),
                         (''precautions'', JStr ''Air circulation.''),
                         (''solutions'', JStr ''Fungicide.'')]) \<rparr>"




definition providers_no_result :: providers where
  "providers_no_result =
     \<lparr> hf_imageClassification = (\<lambda>img model. Inr []),
       google_web_search = (\<lambda>query. Inr two_snippets) \<rparr>"

definition report_full :: DiseaseInfo where
  "report_full =
     \<lparr> diseaseName = JStr ''Powdery Mildew'', causes = JStr ''Fungal spores.'',
       precautions = JStr ''Air circulation.'', solutions = JStr ''Fungicide.'' \<rparr>"

definition blank_key :: utf16 where
  "blank_key = [0x20, 0x09, 0xA0, 0x3000]"

definition padded_key :: utf16 where
  "padded_key = [0x20, 0x41, 0x49, 0x7A, 0x61, 0x0A]"

definition unpaired_key :: utf16 where
  "unpaired_key = [0x41, 0xD83C]"

definition submitted_form :: form_data where
  "submitted_form = [(''image'', FileEntry leaf_png)]"

text \<open>The chain: providers that answer or fail whatever they are given.\<close>

definition enhanced_rejects :: "string \<Rightarrow> provider_failure + string" where
  "enhanced_rejects c = Inl InvalidCredential"

definition enhanced_answers :: "string \<Rightarrow> provider_failure + string" where
  "enhanced_answers c = Inr ''structured completion''"

definition free_answers :: "provider_failure + string" where
  "free_answers = Inr ''leaf rust''"

definition free_times_out :: "provider_failure + string" where
  "free_times_out = Inl Timeout"

text \<open>The flower classifier: the probability vector of the README's example.\<close>

definition readme_vector :: "classification list" where
  "readme_vector =
     [\<lparr> label = ''daisy'', score = 0.0023 \<rparr>, \<lparr> label = ''dandelion'', score = 0.0044 \<rparr>,
      \<lparr> label = ''roses'', score = 0.0111 \<rparr>, \<lparr> label = ''sunflowers'', score = 0.9532 \<rparr>,
      \<lparr> label = ''tulips'', score = 0.0289 \<rparr>]"

section \<open>The route handler, case by case\<close>

lemma caught_response:
  "response (caught e) = \<lparr> status = 500, body = [(''error'', JStr ''Something went wrong'')] \<rparr>"
  by (simp add: caught_def NextResponse_json_def)

lemma no_image_response:
  "response no_image = \<lparr> status = 400, body = [(''error'', JStr ''No image provided'')] \<rparr>"
  by (simp add: no_image_def NextResponse_json_def)

lemma js_or_truthy: "truthy b \<Longrightarrow> truthy (js_or a b)"
  by (simp add: js_or_def)

lemma truthy_defined: "truthy v \<Longrightarrow> v \<noteq> JUndefined"
  by auto

lemma parsed_truthy:
  "truthy (parsed_results.causes (parseSearchResults sr))"
  "truthy (parsed_results.precautions (parseSearchResults sr))"
  "truthy (parsed_results.solutions (parseSearchResults sr))"
  by (simp_all add: parseSearchResults_def js_or_truthy)

text \<open>No field of the report is \<^verbatim>\<open>undefined\<close>, so the JSON text keeps all of them.\<close>

lemma report_response:
  "NextResponse_json (report_body t sr) 200 = \<lparr> status = 200, body = report_body t sr \<rparr>"
  using parsed_truthy [of sr]
  by (auto simp add: NextResponse_json_def report_body_def dest: truthy_defined)

lemma POST_success:
  assumes "req_formData req = Inr fd" "form_get fd ''image'' = Some imageFile"
    "\<not> entry_falsy (Some imageFile)"
    "hf_imageClassification env imageFile imageClassificationModel = Inr (topResult # rest)"
    "google_web_search env (search_query (label topResult)) = Inr searchResults"
  shows "POST env req =
    \<lparr> response = \<lparr> status = 200, body = report_body topResult searchResults \<rparr>, console = [] \<rparr>"
proof -
  have "POST env req =
      \<lparr> response = NextResponse_json (report_body topResult searchResults) 200, console = [] \<rparr>"
    using assms by (simp add: POST_def report_body_def Let_def)
  then show ?thesis by (simp only: report_response)
qed

lemma POST_classification_throws:
  assumes "req_formData req = Inr fd" "form_get fd ''image'' = Some imageFile"
    "\<not> entry_falsy (Some imageFile)"
    "hf_imageClassification env imageFile imageClassificationModel = Inl e"
  shows "POST env req = caught e"
  using assms by (simp add: POST_def)

lemma POST_no_classification:
  assumes "req_formData req = Inr fd" "form_get fd ''image'' = Some imageFile"
    "\<not> entry_falsy (Some imageFile)"
    "hf_imageClassification env imageFile imageClassificationModel = Inr []"
  shows "POST env req = caught undefined_label_error"
  using assms by (simp add: POST_def)

lemma POST_search_throws:
  assumes "req_formData req = Inr fd" "form_get fd ''image'' = Some imageFile"
    "\<not> entry_falsy (Some imageFile)"
    "hf_imageClassification env imageFile imageClassificationModel = Inr (topResult # rest)"
    "google_web_search env (search_query (label topResult)) = Inl e"
  shows "POST env req = caught e"
  using assms by (simp add: POST_def)

lemma POST_no_image:
  assumes "req_formData req = Inr fd" "entry_falsy (form_get fd ''image'')"
  shows "POST env req = no_image"
  using assms by (auto simp: POST_def split: option.splits)

lemma POST_cases:
  obtains
    (bad_form) e where "req_formData req = Inl e" "POST env req = caught e"
  | (no_image) fd where "req_formData req = Inr fd" "entry_falsy (form_get fd ''image'')"
      "POST env req = no_image"
  | (failed) fd imageFile e where "req_formData req = Inr fd"
      "form_get fd ''image'' = Some imageFile" "\<not> entry_falsy (Some imageFile)"
      "provider_failed env imageFile" "POST env req = caught e"
  | (success) fd imageFile topResult rest searchResults where "req_formData req = Inr fd"
      "form_get fd ''image'' = Some imageFile" "\<not> entry_falsy (Some imageFile)"
      "\<not> provider_failed env imageFile"
      "hf_imageClassification env imageFile imageClassificationModel = Inr (topResult # rest)"
      "google_web_search env (search_query (label topResult)) = Inr searchResults"
      "POST env req =
         \<lparr> response = \<lparr> status = 200, body = report_body topResult searchResults \<rparr>,
           console = [] \<rparr>"
proof (cases "req_formData req")
  case (Inl e)
  then have "POST env req = caught e" by (simp add: POST_def)
  with Inl show ?thesis by (rule bad_form)
next
  case (Inr fd)
  show ?thesis
  proof (cases "entry_falsy (form_get fd ''image'')")
    case True
    with Inr show ?thesis by (metis no_image POST_no_image)
  next
    case False
    then obtain imageFile where img: "form_get fd ''image'' = Some imageFile"
      by (cases "form_get fd ''image''") auto
    with False have given: "\<not> entry_falsy (Some imageFile)" by simp
    show ?thesis
    proof (cases "hf_imageClassification env imageFile imageClassificationModel")
      case (Inl e)
      then have "provider_failed env imageFile" by (simp add: provider_failed_def)
      with Inr img given Inl show ?thesis by (metis failed POST_classification_throws)
    next
      case hf: (Inr classificationResult)
      show ?thesis
      proof (cases classificationResult)
        case Nil
        with hf have "provider_failed env imageFile" by (simp add: provider_failed_def)
        with Inr img given hf Nil show ?thesis by (metis failed POST_no_classification)
      next
        case (Cons topResult rest)
        show ?thesis
        proof (cases "google_web_search env (search_query (label topResult))")
          case (Inl e)
          with hf Cons have "provider_failed env imageFile" by (simp add: provider_failed_def)
          with Inr img given hf Cons Inl show ?thesis by (metis failed POST_search_throws)
        next
          case search: (Inr searchResults)
          with hf Cons have "\<not> provider_failed env imageFile" by (simp add: provider_failed_def)
          with Inr img given hf Cons search show ?thesis by (metis success POST_success)
        qed
      qed
    qed
  qed
qed

text \<open>The handler on the concrete inputs.\<close>

lemma parse_two_snippets:
  "parseSearchResults two_snippets =
     \<lparr> parsed_results.causes = JStr ''Caused by fungi.'', precautions = JStr ''N/A'',
       solutions = JStr ''Remove affected leaves.'' \<rparr>"
  by (simp add: two_snippets_def parseSearchResults_def opt_get_def opt_index_def js_or_def)

lemma POST_ok:
  "POST providers_ok request_free =
     \<lparr> response = \<lparr> status = 200, body =
         [(''diseaseName'', JStr ''leaf rust''), (''identificationConfidence'', JNum 0.9),
          (''causes'', JStr ''Caused by fungi.''), (''precautions'', JStr ''N/A''),
          (''solutions'', JStr ''Remove affected leaves.'')] \<rparr>, console = [] \<rparr>"
proof -
  have "POST providers_ok request_free =
      \<lparr> response = \<lparr> status = 200,
          body = report_body \<lparr> label = ''leaf rust'', score = 0.9 \<rparr> two_snippets \<rparr>,
        console = [] \<rparr>"
    by (rule POST_success [where fd = "[(''image'', FileEntry leaf_png)]"
          and imageFile = "FileEntry leaf_png"])
       (simp_all add: request_free_def form_get_def providers_ok_def ordered_result_def)
  then show ?thesis by (simp add: report_body_def parse_two_snippets)
qed

lemma POST_down:
  "POST providers_down request_with_key =
     caught (JsError ''Error'' ''Invalid credentials in Authorization header'')"
  by (rule POST_classification_throws
        [where fd = "[(''image'', FileEntry leaf_png), (''api_key'', TextEntry [0x41, 0x49, 0x7A, 0x61])]"
          and imageFile = "FileEntry leaf_png"])
     (simp_all add: request_with_key_def form_get_def providers_down_def)

section \<open>Properties of the route handler\<close>

lemma failing_response:
  assumes "status (response (POST env req)) \<noteq> 200"
  shows "response (POST env req) =
           (if status (response (POST env req)) = 400
            then \<lparr> status = 400, body = [(''error'', JStr ''No image provided'')] \<rparr>
            else \<lparr> status = 500, body = [(''error'', JStr ''Something went wrong'')] \<rparr>)"
  using assms by (cases env req rule: POST_cases) (simp_all add: caught_response no_image_response)

text \<open>
  C8. A request that fails is answered with one of two fixed bodies, a status and a generic
  message, whatever was thrown inside the handler: two failing requests with the same
  status get the same response, so the response carries nothing of the exception, the
  credential or the provider.
\<close>

theorem error_response_is_generic:
  assumes "status (response (POST env req)) \<noteq> 200"
  shows "(response (POST env req) = \<lparr> status = 400, body = [(''error'', JStr ''No image provided'')] \<rparr> \<or>
          response (POST env req) = \<lparr> status = 500, body = [(''error'', JStr ''Something went wrong'')] \<rparr>) \<and>
         (\<forall>env' req'. status (response (POST env' req')) = status (response (POST env req)) \<longrightarrow>
            response (POST env' req') = response (POST env req))"
proof (intro conjI allI impI)
  show "response (POST env req) = \<lparr> status = 400, body = [(''error'', JStr ''No image provided'')] \<rparr> \<or>
      response (POST env req) = \<lparr> status = 500, body = [(''error'', JStr ''Something went wrong'')] \<rparr>"
    using failing_response [OF assms]
    by (cases "status (response (POST env req)) = 400") simp_all
next
  fix env' req'
  assume eq: "status (response (POST env' req')) = status (response (POST env req))"
  with assms have "status (response (POST env' req')) \<noteq> 200" by simp
  from failing_response [OF this] have "response (POST env' req') =
      (if status (response (POST env req)) = 400
       then \<lparr> status = 400, body = [(''error'', JStr ''No image provided'')] \<rparr>
       else \<lparr> status = 500, body = [(''error'', JStr ''Something went wrong'')] \<rparr>)"
    by (simp only: eq)
  also have "\<dots> = response (POST env req)"
    by (rule failing_response [OF assms, symmetric])
  finally show "response (POST env' req') = response (POST env req)" .
qed

theorem error_response_is_generic_witness:
  "status (response (POST providers_down request_with_key)) \<noteq> 200 \<and>
   response (POST providers_down request_with_key) =
     \<lparr> status = 500, body = [(''error'', JStr ''Something went wrong'')] \<rparr>"
proof -
  have st: "status (response (POST providers_down request_with_key)) = 500"
    by (simp add: POST_down caught_response)
  then have "status (response (POST providers_down request_with_key)) \<noteq> 200" by simp
  from error_response_is_generic [OF this, THEN conjunct1] st show ?thesis by auto
qed

lemma js_or_string:
  "string_or_absent v \<Longrightarrow> is_string (js_or v (JStr ''N/A''))"
  by (cases v) (simp_all add: string_or_absent_def js_or_def is_string_def)

lemma parsed_strings:
  assumes "snippets_are_strings sr"
  shows "is_string (parsed_results.causes (parseSearchResults sr))"
    and "is_string (parsed_results.precautions (parseSearchResults sr))"
    and "is_string (parsed_results.solutions (parseSearchResults sr))"
  using assms by (simp_all add: snippets_are_strings_def parseSearchResults_def js_or_string)

lemma POST_success_inv:
  assumes "req_formData req = Inr fd" and "form_get fd ''image'' = Some imageFile"
    and "hf_imageClassification env imageFile imageClassificationModel = Inr rs"
    and "status (response (POST env req)) = 200"
  obtains topResult rest searchResults where "rs = topResult # rest"
    and "google_web_search env (search_query (label topResult)) = Inr searchResults"
    and "body (response (POST env req)) = report_body topResult searchResults"
proof (cases env req rule: POST_cases)
  case (success fd' imageFile' topResult rest searchResults)
  with assms have "rs = topResult # rest" by simp
  moreover from success assms have "google_web_search env (search_query (label topResult)) = Inr searchResults"
    by simp
  moreover from success have "body (response (POST env req)) = report_body topResult searchResults"
    by simp
  ultimately show ?thesis by (rule that)
qed (use assms in \<open>simp_all add: caught_response no_image_response\<close>)

text \<open>
  C3. The claim asks for exactly four fields. The handler's successful response has a
  fifth, \<open>identificationConfidence\<close>, the score of the top classification.
\<close>

theorem success_response_four_fields_counterexample:
  "status (response (POST providers_ok request_free)) = 200 \<and>
   map_of (body (response (POST providers_ok request_free))) ''identificationConfidence'' =
     Some (JNum 0.9) \<and>
   \<not> four_field_shape (body (response (POST providers_ok request_free)))"
  by (simp add: POST_ok four_field_shape_def is_string_def)

text \<open>
  C3, amended. Every successful response has exactly five fields, in this order:
  \<open>diseaseName\<close>, a string, the label of the first classification entry;
  \<open>identificationConfidence\<close>, a number, the score of that entry; and \<open>causes\<close>,
  \<open>precautions\<close> and \<open>solutions\<close>, what \<open>parseSearchResults\<close> makes of the search results:
  none of them empty, and strings when the snippets the search provider returned are.
\<close>

theorem success_response_five_fields:
  assumes "req_formData req = Inr fd" and "form_get fd ''image'' = Some imageFile"
    and "hf_imageClassification env imageFile imageClassificationModel = Inr rs"
    and "status (response (POST env req)) = 200"
  shows "\<exists>topResult rest searchResults.
           rs = topResult # rest \<and>
           google_web_search env (search_query (label topResult)) = Inr searchResults \<and>
           body (response (POST env req)) =
             [(''diseaseName'', JStr (label topResult)),
              (''identificationConfidence'', JNum (score topResult)),
              (''causes'', parsed_results.causes (parseSearchResults searchResults)),
              (''precautions'', parsed_results.precautions (parseSearchResults searchResults)),
              (''solutions'', parsed_results.solutions (parseSearchResults searchResults))] \<and>
           truthy (parsed_results.causes (parseSearchResults searchResults)) \<and>
           truthy (parsed_results.precautions (parseSearchResults searchResults)) \<and>
           truthy (parsed_results.solutions (parseSearchResults searchResults)) \<and>
           (snippets_are_strings searchResults \<longrightarrow>
              is_string (parsed_results.causes (parseSearchResults searchResults)) \<and>
              is_string (parsed_results.precautions (parseSearchResults searchResults)) \<and>
              is_string (parsed_results.solutions (parseSearchResults searchResults)))"
proof -
  from assms obtain topResult rest searchResults where "rs = topResult # rest"
    and "google_web_search env (search_query (label topResult)) = Inr searchResults"
    and "body (response (POST env req)) = report_body topResult searchResults"
    by (rule POST_success_inv)
  then show ?thesis
    by (intro exI [of _ topResult] exI [of _ rest] exI [of _ searchResults])
       (simp add: report_body_def parsed_truthy parsed_strings)
qed

lemma two_snippets_strings: "snippets_are_strings two_snippets"
  by (simp add: snippets_are_strings_def two_snippets_def opt_get_def opt_index_def
      string_or_absent_def)

theorem success_response_five_fields_witness:
  "req_formData request_free = Inr [(''image'', FileEntry leaf_png)] \<and>
   form_get [(''image'', FileEntry leaf_png)] ''image'' = Some (FileEntry leaf_png) \<and>
   hf_imageClassification providers_ok (FileEntry leaf_png) imageClassificationModel =
     Inr ordered_result \<and>
   status (response (POST providers_ok request_free)) = 200 \<and>
   snippets_are_strings two_snippets \<and>
   body (response (POST providers_ok request_free)) =
     [(''diseaseName'', JStr ''leaf rust''), (''identificationConfidence'', JNum 0.9),
      (''causes'', JStr ''Caused by fungi.''), (''precautions'', JStr ''N/A''),
      (''solutions'', JStr ''Remove affected leaves.'')] \<and>
   is_string (JStr ''Caused by fungi.'') \<and> is_string (JStr ''N/A'') \<and>
   is_string (JStr ''Remove affected leaves.'')"
proof -
  have h1: "req_formData request_free = Inr [(''image'', FileEntry leaf_png)]"
    by (simp add: request_free_def)
  have h2: "form_get [(''image'', FileEntry leaf_png)] ''image'' = Some (FileEntry leaf_png)"
    by (simp add: form_get_def)
  have h3: "hf_imageClassification providers_ok (FileEntry leaf_png) imageClassificationModel =
     Inr ordered_result"
    by (simp add: providers_ok_def)
  have h4: "status (response (POST providers_ok request_free)) = 200"
    by (simp add: POST_ok)
  have search: "google_web_search providers_ok q = Inr two_snippets" for q
    by (simp add: providers_ok_def)
  from success_response_five_fields [OF h1 h2 h3 h4]
  obtain topResult where "\<exists>rest searchResults.
           ordered_result = topResult # rest \<and>
           google_web_search providers_ok (search_query (label topResult)) = Inr searchResults \<and>
           body (response (POST providers_ok request_free)) =
             [(''diseaseName'', JStr (label topResult)),
              (''identificationConfidence'', JNum (score topResult)),
              (''causes'', parsed_results.causes (parseSearchResults searchResults)),
              (''precautions'', parsed_results.precautions (parseSearchResults searchResults)),
              (''solutions'', parsed_results.solutions (parseSearchResults searchResults))] \<and>
           truthy (parsed_results.causes (parseSearchResults searchResults)) \<and>
           truthy (parsed_results.precautions (parseSearchResults searchResults)) \<and>
           truthy (parsed_results.solutions (parseSearchResults searchResults)) \<and>
           (snippets_are_strings searchResults \<longrightarrow>
              is_string (parsed_results.causes (parseSearchResults searchResults)) \<and>
              is_string (parsed_results.precautions (parseSearchResults searchResults)) \<and>
              is_string (parsed_results.solutions (parseSearchResults searchResults)))" ..
  then obtain rest searchResults where
    "google_web_search providers_ok (search_query (label topResult)) = Inr searchResults"
    and strings: "snippets_are_strings searchResults \<longrightarrow>
              is_string (parsed_results.causes (parseSearchResults searchResults)) \<and>
              is_string (parsed_results.precautions (parseSearchResults searchResults)) \<and>
              is_string (parsed_results.solutions (parseSearchResults searchResults))"
    by (elim exE conjE)
  then have "searchResults = two_snippets" by (simp add: search)
  with strings two_snippets_strings
  have "is_string (JStr ''Caused by fungi.'') \<and> is_string (JStr ''N/A'') \<and>
      is_string (JStr ''Remove affected leaves.'')"
    by (simp add: parse_two_snippets)
  with h1 h2 h3 h4 two_snippets_strings show ?thesis by (simp add: POST_ok)
qed

lemma descending_max:
  assumes "descending (t # rest)"
  shows "max_probability (t # rest) = score t"
proof -
  have "\<forall>r \<in> set rest. score r \<le> score t"
    using assms by (simp add: descending_def)
  then have "Max (insert (score t) (score ` set rest)) = score t"
    by (intro Max_eqI) auto
  then show ?thesis by (simp add: max_probability_def)
qed

lemma descending_argmax:
  assumes "descending (t # rest)"
  shows "argmax_label (t # rest) = Some (label t)"
  by (simp add: argmax_label_def descending_max [OF assms])

lemma top_from_score:
  "score (top_from b es) = Max (insert (score b) (score ` set es))"
proof (induction es arbitrary: b)
  case Nil
  then show ?case by simp
next
  case (Cons e es)
  have "Max (insert (score b) (insert (score e) (score ` set es))) =
        Max (insert (max (score b) (score e)) (score ` set es))"
    by (cases "score ` set es = {}") (simp_all add: max.assoc)
  moreover have "score (if score b < score e then e else b) = max (score b) (score e)"
    by (simp add: max_def)
  ultimately show ?case using Cons.IH [of "if score b < score e then e else b"] by simp
qed

lemma top_from_first:
  "find (\<lambda>r. score r = Max (insert (score b) (score ` set es))) (b # es) = Some (top_from b es)"
proof (induction es arbitrary: b)
  case Nil
  then show ?case by simp
next
  case (Cons e es)
  define M where "M = Max (insert (score b) (insert (score e) (score ` set es)))"
  have b_le: "score b \<le> M" unfolding M_def by (rule Max_ge) simp_all
  have e_le: "score e \<le> M" unfolding M_def by (rule Max_ge) simp_all
  have split: "M = max (score b) (Max (insert (score e) (score ` set es)))"
    unfolding M_def by (rule Max_insert) simp_all
  have swap: "M = max (score e) (Max (insert (score b) (score ` set es)))"
  proof -
    have "insert (score b) (insert (score e) (score ` set es)) =
          insert (score e) (insert (score b) (score ` set es))" by (rule insert_commute)
    then have "M = Max (insert (score e) (insert (score b) (score ` set es)))"
      unfolding M_def by (rule arg_cong)
    also have "\<dots> = max (score e) (Max (insert (score b) (score ` set es)))"
      by (rule Max_insert) simp_all
    finally show ?thesis .
  qed
  have goal: "find (\<lambda>r. score r = M) (b # e # es) = Some (top_from b (e # es))"
  proof (cases "score b < score e")
    case True
    have "score e \<le> Max (insert (score e) (score ` set es))" by (rule Max_ge) simp_all
    with True have "score b \<le> Max (insert (score e) (score ` set es))" by linarith
    then have M: "M = Max (insert (score e) (score ` set es))"
      unfolding split by (rule max_absorb2)
    have "find (\<lambda>r. score r = M) (e # es) = Some (top_from e es)"
      unfolding M by (rule Cons.IH)
    moreover have "score b \<noteq> M" using True e_le by linarith
    ultimately show ?thesis using True by simp
  next
    case False
    have "score b \<le> Max (insert (score b) (score ` set es))" by (rule Max_ge) simp_all
    with False have "score e \<le> Max (insert (score b) (score ` set es))" by linarith
    then have M: "M = Max (insert (score b) (score ` set es))"
      unfolding swap by (rule max_absorb2)
    have f: "find (\<lambda>r. score r = M) (b # es) = Some (top_from b es)"
      unfolding M by (rule Cons.IH)
    show ?thesis
    proof (cases "score b = M")
      case True
      with f False show ?thesis by simp
    next
      case nb: False
      then have "score e \<noteq> M" using False b_le by linarith
      with f False nb show ?thesis by simp
    qed
  qed
  have "score ` set (e # es) = insert (score e) (score ` set es)" by simp
  then show ?case using goal unfolding M_def by (simp only:)
qed

lemma flower_prediction_top:
  assumes "flower_prediction v = Some p"
  shows "confidence p = max_probability v \<and> argmax_label v = Some (prediction p) \<and> probabilities p = v"
proof (cases v)
  case Nil
  with assms show ?thesis by (simp add: flower_prediction_def)
next
  case (Cons e es)
  with assms have p: "p = \<lparr> prediction = label (top_from e es), confidence = score (top_from e es),
                 probabilities = v \<rparr>"
    by (simp add: flower_prediction_def)
  have m: "max_probability v = Max (insert (score e) (score ` set es))"
    by (simp add: max_probability_def Cons)
  show ?thesis
    using top_from_first [of e es]
    by (simp add: p m top_from_score argmax_label_def) (simp add: Cons)
qed

lemma flower_readme:
  "flower_prediction readme_vector =
     Some \<lparr> prediction = ''sunflowers'', confidence = 0.9532, probabilities = readme_vector \<rparr>"
  by (simp add: flower_prediction_def readme_vector_def)

text \<open>
  C9. The flower classifier's prediction, derived from a probability vector, has as its
  confidence the maximum entry of the vector and as its label the argmax label, the label
  of the first entry that attains the maximum; every non-empty vector has a prediction.
  The route handler reports the first entry of the classification result, which the
  inference provider lists by descending score: its confidence is then the maximum entry
  and its name the argmax label.
\<close>

theorem confidence_is_max_prediction_is_argmax:
  "(flower_prediction v = Some p \<longrightarrow>
      confidence p = max_probability v \<and> argmax_label v = Some (prediction p) \<and>
      probabilities p = v) \<and>
   (v \<noteq> [] \<longrightarrow> flower_prediction v \<noteq> None) \<and>
   (req_formData req = Inr fd \<and> form_get fd ''image'' = Some imageFile \<and>
      hf_imageClassification env imageFile imageClassificationModel = Inr rs \<and>
      status (response (POST env req)) = 200 \<and> descending rs \<longrightarrow>
        reports_top_class (response (POST env req)) rs \<and>
        map_of (body (response (POST env req))) ''identificationConfidence'' =
          Some (JNum (max_probability rs)) \<and>
        map_of (body (response (POST env req))) ''diseaseName'' =
          map_option JStr (argmax_label rs))"
proof (intro conjI impI)
  assume "flower_prediction v = Some p"
  then show "confidence p = max_probability v" "argmax_label v = Some (prediction p)"
    "probabilities p = v"
    by (simp_all add: flower_prediction_top)
next
  assume "v \<noteq> []"
  then show "flower_prediction v \<noteq> None"
    by (cases v) (simp_all add: flower_prediction_def)
next
  assume a: "req_formData req = Inr fd \<and> form_get fd ''image'' = Some imageFile \<and>
      hf_imageClassification env imageFile imageClassificationModel = Inr rs \<and>
      status (response (POST env req)) = 200 \<and> descending rs"
  then obtain topResult rest searchResults where rs: "rs = topResult # rest"
    and b: "body (response (POST env req)) = report_body topResult searchResults"
    by (elim conjE POST_success_inv)
  from a rs have d: "descending (topResult # rest)" by simp
  show top: "reports_top_class (response (POST env req)) rs"
    unfolding reports_top_class_def b rs
    by (simp add: report_body_def descending_max [OF d] descending_argmax [OF d])
  then show "map_of (body (response (POST env req))) ''identificationConfidence'' =
          Some (JNum (max_probability rs))"
    and "map_of (body (response (POST env req))) ''diseaseName'' =
          map_option JStr (argmax_label rs)"
    by (simp_all add: reports_top_class_def)
qed

theorem confidence_is_max_prediction_is_argmax_witness:
  "flower_prediction readme_vector =
     Some \<lparr> prediction = ''sunflowers'', confidence = 0.9532, probabilities = readme_vector \<rparr> \<and>
   max_probability readme_vector = 0.9532 \<and>
   argmax_label readme_vector = Some ''sunflowers'' \<and>
   descending ordered_result \<and>
   status (response (POST providers_ok request_free)) = 200 \<and>
   reports_top_class (response (POST providers_ok request_free)) ordered_result"
proof -
  let ?p = "\<lparr> prediction = ''sunflowers'', confidence = 0.9532, probabilities = readme_vector \<rparr>"
  have h: "req_formData request_free = Inr [(''image'', FileEntry leaf_png)] \<and>
      form_get [(''image'', FileEntry leaf_png)] ''image'' = Some (FileEntry leaf_png) \<and>
      hf_imageClassification providers_ok (FileEntry leaf_png) imageClassificationModel =
        Inr ordered_result \<and>
      status (response (POST providers_ok request_free)) = 200 \<and> descending ordered_result"
  proof (intro conjI)
    show "req_formData request_free = Inr [(''image'', FileEntry leaf_png)]"
      by (simp add: request_free_def)
    show "form_get [(''image'', FileEntry leaf_png)] ''image'' = Some (FileEntry leaf_png)"
      by (simp add: form_get_def)
    show "hf_imageClassification providers_ok (FileEntry leaf_png) imageClassificationModel =
        Inr ordered_result"
      by (simp add: providers_ok_def)
    show "status (response (POST providers_ok request_free)) = 200"
      by (simp add: POST_ok)
    show "descending ordered_result"
      by (simp add: descending_def ordered_result_def)
  qed
  have flower: "max_probability readme_vector = 0.9532 \<and> argmax_label readme_vector = Some ''sunflowers''"
    using confidence_is_max_prediction_is_argmax [of readme_vector ?p, THEN conjunct1] flower_readme
    by simp
  have "reports_top_class (response (POST providers_ok request_free)) ordered_result"
    using confidence_is_max_prediction_is_argmax
      [where req = request_free and fd = "[(''image'', FileEntry leaf_png)]"
        and imageFile = "FileEntry leaf_png" and env = providers_ok and rs = ordered_result
        and v = readme_vector and p = ?p] h
    by blast
  with flower flower_readme h show ?thesis by simp
qed

lemma snippet_at:
  "js_or (opt_get (opt_index (JArr rs) i) ''snippet'') (JStr ''N/A'') = positional_field rs i"
  by (auto simp: js_or_def opt_get_def opt_index_def positional_field_def supplied_snippet_def
      split: jsval.splits option.splits)

lemma opt_get_obj: "map_of obj k = Some v \<Longrightarrow> opt_get (JObj obj) k = v"
  by (simp add: opt_get_def)

lemma parse_positional:
  assumes "map_of obj ''organic_results'' = Some (JArr results)"
  shows "parseSearchResults (JObj obj) =
     \<lparr> parsed_results.causes = positional_field results 0,
       precautions = positional_field results 1,
       solutions = positional_field results 2 \<rparr>"
  unfolding parseSearchResults_def by (simp only: opt_get_obj [OF assms] snippet_at)

lemma parse_nothing:
  assumes "nullish (opt_get searchResults ''organic_results'')"
  shows "parseSearchResults searchResults =
     \<lparr> parsed_results.causes = JStr ''N/A'', precautions = JStr ''N/A'', solutions = JStr ''N/A'' \<rparr>"
  unfolding parseSearchResults_def using assms by (simp add: opt_index_def opt_get_def js_or_def)

text \<open>
  C6. When the search results hold a list of organic results, causes, precautions and
  solutions are the snippets of the first, second and third result, and the placeholder
  "N/A" stands for each one the list does not supply; with no list at all, all three are
  "N/A".
\<close>

theorem snippets_mapped_positionally:
  "(map_of obj ''organic_results'' = Some (JArr results) \<longrightarrow>
      parseSearchResults (JObj obj) =
        \<lparr> parsed_results.causes = positional_field results 0,
          precautions = positional_field results 1,
          solutions = positional_field results 2 \<rparr>) \<and>
   (nullish (opt_get searchResults ''organic_results'') \<longrightarrow>
      parseSearchResults searchResults =
        \<lparr> parsed_results.causes = JStr ''N/A'', precautions = JStr ''N/A'',
          solutions = JStr ''N/A'' \<rparr>)"
  using parse_positional parse_nothing by blast

theorem snippets_mapped_positionally_witness:
  "parseSearchResults two_snippets =
     \<lparr> parsed_results.causes = JStr ''Caused by fungi.'', precautions = JStr ''N/A'',
       solutions = JStr ''Remove affected leaves.'' \<rparr> \<and>
   nullish (opt_get JNull ''organic_results'') \<and>
   parseSearchResults JNull =
     \<lparr> parsed_results.causes = JStr ''N/A'', precautions = JStr ''N/A'', solutions = JStr ''N/A'' \<rparr>"
proof -
  let ?results = "[JObj [(''title'', JStr ''Rust''), (''snippet'', JStr ''Caused by fungi.'')],
                  JObj [(''title'', JStr ''Care'')],
                  JObj [(''snippet'', JStr ''Remove affected leaves.'')]]"
  have h1: "map_of [(''organic_results'', JArr ?results)] ''organic_results'' = Some (JArr ?results)"
    by simp
  have h2: "nullish (opt_get JNull ''organic_results'')"
    by (simp add: opt_get_def)
  have p: "positional_field ?results 0 = JStr ''Caused by fungi.''"
    "positional_field ?results 1 = JStr ''N/A''"
    "positional_field ?results 2 = JStr ''Remove affected leaves.''"
    by (simp_all add: positional_field_def supplied_snippet_def)
  from snippets_mapped_positionally
    [of "[(''organic_results'', JArr ?results)]" ?results JNull] h1 h2 p
  show ?thesis by (simp add: two_snippets_def)
qed

section \<open>Properties of the page\<close>

lemma detect_request_object:
  assumes "fetch env (apiUrl env @ ''/detect-disease'') (uploadFormData imageFile key) = Inr resp"
    and "ok resp" and "json resp = Inr (JObj members)"
  shows "detect_request env imageFile key =
     (if truthy (js_get (JObj members) ''diseaseName'') \<and> truthy (js_get (JObj members) ''causes'') \<and>
         truthy (js_get (JObj members) ''precautions'') \<and> truthy (js_get (JObj members) ''solutions'')
      then Inr \<lparr> diseaseName = js_get (JObj members) ''diseaseName'',
                 causes = js_get (JObj members) ''causes'',
                 precautions = js_get (JObj members) ''precautions'',
                 solutions = js_get (JObj members) ''solutions'' \<rparr>
      else Inl (JsError ''Error'' invalid_response))"
  using assms
  by (simp add: detect_request_def property_of_def new_Error_def invalid_response_def)

lemma detect_request_valid:
  assumes "detect_request env imageFile key = Inr info"
  shows "all_four_present info"
  using assms
  by (auto simp: detect_request_def property_of_def all_four_present_def Let_def
      split: sum.splits if_splits)

lemma handleSubmit_file:
  assumes "form_get fd ''image'' = Some (FileEntry imageFile)" and "file_size imageFile \<noteq> 0"
  shows "handleSubmit env st fd =
     (case detect_request env imageFile (geminiKey st) of
        Inr info \<Rightarrow> st\<lparr> isPending := False, error := None, diseaseInfo := Some info \<rparr>
      | Inl e \<Rightarrow> st\<lparr> isPending := False, error := Some (errorMessage e), diseaseInfo := None \<rparr>)"
  using assms by (simp add: handleSubmit_def)

text \<open>A request that the abort timer cut off ends with the time-out message, not pending.\<close>

lemma handleSubmit_aborted:
  assumes "form_get fd ''image'' = Some (FileEntry imageFile)" and "file_size imageFile \<noteq> 0"
    and "fetch env (apiUrl env @ ''/detect-disease'') (uploadFormData imageFile (geminiKey st)) =
           Inl (JsError ''AbortError'' msg)"
  shows "handleSubmit env st fd =
     st\<lparr> isPending := False,
         error := Some ''Request timed out. Please check your connection and try again.'',
         diseaseInfo := None \<rparr>"
  using assms by (simp add: handleSubmit_def detect_request_def errorMessage_def)

lemma handleSubmit_shows:
  "diseaseInfo (handleSubmit env st fd) = diseaseInfo st \<or>
   diseaseInfo (handleSubmit env st fd) = None \<or>
   (\<exists>imageFile info. detect_request env imageFile (geminiKey st) = Inr info \<and>
      diseaseInfo (handleSubmit env st fd) = Some info)"
  by (auto simp: handleSubmit_def split: option.splits form_entry.splits sum.splits)

lemma handleSubmit_valid:
  assumes "shows_valid_report st"
  shows "shows_valid_report (handleSubmit env st fd)"
  using handleSubmit_shows [of env st fd] assms
  by (auto simp: shows_valid_report_def dest: detect_request_valid)

lemma handleSubmit_rejects:
  assumes "form_get fd ''image'' = Some (FileEntry imageFile)" and "file_size imageFile \<noteq> 0"
    and "fetch env (apiUrl env @ ''/detect-disease'') (uploadFormData imageFile (geminiKey st)) = Inr resp"
    and "ok resp" and "json resp = Inr (JObj members)"
    and "\<not> (truthy (js_get (JObj members) ''diseaseName'') \<and> truthy (js_get (JObj members) ''causes'') \<and>
         truthy (js_get (JObj members) ''precautions'') \<and> truthy (js_get (JObj members) ''solutions''))"
  shows "handleSubmit env st fd =
     st\<lparr> isPending := False, error := Some invalid_response, diseaseInfo := None \<rparr>"
proof -
  have "detect_request env imageFile (geminiKey st) = Inl (JsError ''Error'' invalid_response)"
    using detect_request_object [OF assms(3,4,5)] assms(6) by simp
  moreover have "errorMessage (JsError ''Error'' invalid_response) = invalid_response"
    by (simp add: errorMessage_def)
  ultimately show ?thesis
    by (simp add: handleSubmit_file [OF assms(1,2)])
qed

lemma handleSubmit_accepts:
  assumes "form_get fd ''image'' = Some (FileEntry imageFile)" and "file_size imageFile \<noteq> 0"
    and "fetch env (apiUrl env @ ''/detect-disease'') (uploadFormData imageFile (geminiKey st)) = Inr resp"
    and "ok resp" and "json resp = Inr (JObj members)"
    and "truthy (js_get (JObj members) ''diseaseName'')" "truthy (js_get (JObj members) ''causes'')"
         "truthy (js_get (JObj members) ''precautions'')" "truthy (js_get (JObj members) ''solutions'')"
  shows "handleSubmit env st fd =
     st\<lparr> isPending := False, error := None,
         diseaseInfo := Some \<lparr> diseaseName = js_get (JObj members) ''diseaseName'',
                 causes = js_get (JObj members) ''causes'',
                 precautions = js_get (JObj members) ''precautions'',
                 solutions = js_get (JObj members) ''solutions'' \<rparr> \<rparr>"
  using detect_request_object [OF assms(3,4,5)] assms(6-)
  by (simp add: handleSubmit_file [OF assms(1,2)])

lemma submit_full:
  "handleSubmit (client_of response_full) initial_page_state submitted_form =
     initial_page_state\<lparr> isPending := False, error := None, diseaseInfo := Some report_full \<rparr>"
proof -
  have "handleSubmit (client_of response_full) initial_page_state submitted_form =
     initial_page_state\<lparr> isPending := False, error := None,
         diseaseInfo := Some \<lparr> diseaseName = js_get (JObj [(''diseaseName'', JStr ''Powdery Mildew''),
                         (''causes'', JStr ''Fungal spores.''),
                         (''precautions'', JStr ''Air circulation.''),
                         (''solutions'', JStr ''Fungicide.'')]) ''diseaseName'',
                 causes = js_get (JObj [(''diseaseName'', JStr ''Powdery Mildew''),
                         (''causes'', JStr ''Fungal spores.''),
                         (''precautions'', JStr ''Air circulation.''),
                         (''solutions'', JStr ''Fungicide.'')]) ''causes'',
                 precautions = js_get (JObj [(''diseaseName'', JStr ''Powdery Mildew''),
                         (''causes'', JStr ''Fungal spores.''),
                         (''precautions'', JStr ''Air circulation.''),
                         (''solutions'', JStr ''Fungicide.'')]) ''precautions'',
                 solutions = js_get (JObj [(''diseaseName'', JStr ''Powdery Mildew''),
                         (''causes'', JStr ''Fungal spores.''),
                         (''precautions'', JStr ''Air circulation.''),
                         (''solutions'', JStr ''Fungicide.'')]) ''solutions'' \<rparr> \<rparr>"
    by (rule handleSubmit_accepts [where imageFile = leaf_png and resp = response_full])
       (simp_all add: submitted_form_def form_get_def leaf_png_def client_of_def response_full_def)
  then show ?thesis by (simp add: report_full_def)
qed

lemma POST_no_result:
  "POST providers_no_result request_free = caught undefined_label_error"
  by (rule POST_no_classification [where fd = "[(''image'', FileEntry leaf_png)]"
        and imageFile = "FileEntry leaf_png"])
     (simp_all add: request_free_def form_get_def providers_no_result_def)

lemma POST_empty_label:
  "POST providers_empty_label request_free =
     \<lparr> response = \<lparr> status = 200, body =
         [(''diseaseName'', JStr []), (''identificationConfidence'', JNum 0.9),
          (''causes'', JStr ''Caused by fungi.''), (''precautions'', JStr ''Water at the base.''),
          (''solutions'', JStr ''Remove affected leaves.'')] \<rparr>, console = [] \<rparr>"
proof -
  have parse: "parseSearchResults three_snippets =
     \<lparr> parsed_results.causes = JStr ''Caused by fungi.'', precautions = JStr ''Water at the base.'',
       solutions = JStr ''Remove affected leaves.'' \<rparr>"
    by (simp add: three_snippets_def parseSearchResults_def opt_get_def opt_index_def js_or_def)
  have "POST providers_empty_label request_free =
      \<lparr> response = \<lparr> status = 200,
          body = report_body \<lparr> label = [], score = 0.9 \<rparr> three_snippets \<rparr>,
        console = [] \<rparr>"
    by (rule POST_success [where fd = "[(''image'', FileEntry leaf_png)]"
          and imageFile = "FileEntry leaf_png"])
       (simp_all add: request_free_def form_get_def providers_empty_label_def)
  then show ?thesis by (simp add: report_body_def parse)
qed




text \<open>
  C4. As stated, the property fails in the route handler: for a classification whose first
  entry has an empty label it answers with status 200 and a report whose disease name is
  empty, with causes, precautions and solutions present.
\<close>

theorem empty_name_is_reported_counterexample:
  "hf_imageClassification providers_empty_label (FileEntry leaf_png) imageClassificationModel =
     Inr [\<lparr> label = [], score = 0.9 \<rparr>] \<and>
   response (POST providers_empty_label request_free) =
     \<lparr> status = 200, body =
         [(''diseaseName'', JStr []), (''identificationConfidence'', JNum 0.9),
          (''causes'', JStr ''Caused by fungi.''), (''precautions'', JStr ''Water at the base.''),
          (''solutions'', JStr ''Remove affected leaves.'')] \<rparr>"
proof -
  have "hf_imageClassification providers_empty_label (FileEntry leaf_png) imageClassificationModel =
     Inr [\<lparr> label = [], score = 0.9 \<rparr>]"
    by (simp add: providers_empty_label_def)
  then show ?thesis by (simp add: POST_empty_label)
qed

text \<open>
  C4, amended. The route handler fails, rather than returning a report, when the disease
  name cannot be determined because the classification has no result; a name that can be
  determined is the label of the first entry, copied as it is. The page fails with
  "Invalid response from disease detection API." and sets no report when the API's answer
  has no disease name or an empty one, whatever the other three fields hold, and the
  report the page shows never has an empty name.
\<close>

theorem report_without_name_is_rejected_by_page:
  "(req_formData req = Inr form \<and> form_get form ''image'' = Some image_entry \<and>
      \<not> entry_falsy (Some image_entry) \<and>
      hf_imageClassification penv image_entry imageClassificationModel = Inr [] \<longrightarrow>
        response (POST penv req) =
          \<lparr> status = 500, body = [(''error'', JStr ''Something went wrong'')] \<rparr>) \<and>
   (req_formData req = Inr form \<and> form_get form ''image'' = Some image_entry \<and>
      hf_imageClassification penv image_entry imageClassificationModel = Inr rs \<and>
      status (response (POST penv req)) = 200 \<longrightarrow>
        rs \<noteq> [] \<and>
        map_of (body (response (POST penv req))) ''diseaseName'' = Some (JStr (label (hd rs)))) \<and>
   (form_get fd ''image'' = Some (FileEntry imageFile) \<and> file_size imageFile \<noteq> 0 \<and>
      fetch env (apiUrl env @ ''/detect-disease'') (uploadFormData imageFile (geminiKey st)) = Inr resp \<and>
      ok resp \<and> json resp = Inr (JObj members) \<and>
      (map_of members ''diseaseName'' = None \<or> map_of members ''diseaseName'' = Some (JStr [])) \<longrightarrow>
        handleSubmit env st fd =
          st\<lparr> isPending := False, error := Some invalid_response, diseaseInfo := None \<rparr>) \<and>
   (shows_valid_report st' \<and> diseaseInfo (handleSubmit env' st' fd') = Some info \<longrightarrow>
      truthy (diseaseName info) \<and> diseaseName info \<noteq> JStr [])"
proof (intro conjI impI)
  assume "req_formData req = Inr form \<and> form_get form ''image'' = Some image_entry \<and>
      \<not> entry_falsy (Some image_entry) \<and>
      hf_imageClassification penv image_entry imageClassificationModel = Inr []"
  then have "POST penv req = caught undefined_label_error"
    by (intro POST_no_classification [where fd = form and imageFile = image_entry]) simp_all
  then show "response (POST penv req) =
      \<lparr> status = 500, body = [(''error'', JStr ''Something went wrong'')] \<rparr>"
    by (simp add: caught_response)
next
  assume a: "req_formData req = Inr form \<and> form_get form ''image'' = Some image_entry \<and>
      hf_imageClassification penv image_entry imageClassificationModel = Inr rs \<and>
      status (response (POST penv req)) = 200"
  then obtain topResult rest searchResults where rs: "rs = topResult # rest"
    and b: "body (response (POST penv req)) = report_body topResult searchResults"
    by (elim conjE POST_success_inv)
  from rs show "rs \<noteq> []" by simp
  from rs b show "map_of (body (response (POST penv req))) ''diseaseName'' = Some (JStr (label (hd rs)))"
    by (simp add: report_body_def)
next
  assume a: "form_get fd ''image'' = Some (FileEntry imageFile) \<and> file_size imageFile \<noteq> 0 \<and>
      fetch env (apiUrl env @ ''/detect-disease'') (uploadFormData imageFile (geminiKey st)) = Inr resp \<and>
      ok resp \<and> json resp = Inr (JObj members) \<and>
      (map_of members ''diseaseName'' = None \<or> map_of members ''diseaseName'' = Some (JStr []))"
  then have "\<not> truthy (js_get (JObj members) ''diseaseName'')" by auto
  then have "\<not> (truthy (js_get (JObj members) ''diseaseName'') \<and> truthy (js_get (JObj members) ''causes'') \<and>
         truthy (js_get (JObj members) ''precautions'') \<and> truthy (js_get (JObj members) ''solutions''))"
    by simp
  with a show "handleSubmit env st fd =
      st\<lparr> isPending := False, error := Some invalid_response, diseaseInfo := None \<rparr>"
    by (intro handleSubmit_rejects [where imageFile = imageFile and resp = resp and members = members])
       simp_all
next
  assume b: "shows_valid_report st' \<and> diseaseInfo (handleSubmit env' st' fd') = Some info"
  then have "shows_valid_report (handleSubmit env' st' fd')"
    by (intro handleSubmit_valid) simp
  with b have "all_four_present info" by (simp add: shows_valid_report_def)
  then show "truthy (diseaseName info)" by (simp add: all_four_present_def)
  then show "diseaseName info \<noteq> JStr []" by auto
qed

theorem report_without_name_is_rejected_by_page_witness:
  "response (POST providers_no_result request_free) =
     \<lparr> status = 500, body = [(''error'', JStr ''Something went wrong'')] \<rparr> \<and>
   status (response (POST providers_ok request_free)) = 200 \<and>
   map_of (body (response (POST providers_ok request_free))) ''diseaseName'' =
     Some (JStr ''leaf rust'') \<and>
   handleSubmit (client_of response_empty_name) initial_page_state submitted_form =
     initial_page_state\<lparr> isPending := False, error := Some invalid_response, diseaseInfo := None \<rparr> \<and>
   diseaseInfo (handleSubmit (client_of response_full) initial_page_state submitted_form) =
     Some report_full \<and>
   truthy (diseaseName report_full)"
proof -
  let ?nameless = "[(''diseaseName'', JStr []), (''causes'', JStr ''Fungal spores.''),
                    (''precautions'', JStr ''Air circulation.''), (''solutions'', JStr ''Fungicide.'')]"
  let ?form = "[(''image'', FileEntry leaf_png)]"
  have h1: "req_formData request_free = Inr ?form \<and>
      form_get ?form ''image'' = Some (FileEntry leaf_png) \<and>
      \<not> entry_falsy (Some (FileEntry leaf_png)) \<and>
      hf_imageClassification providers_no_result (FileEntry leaf_png) imageClassificationModel = Inr []"
    by (simp add: request_free_def form_get_def providers_no_result_def)
  have ok: "status (response (POST providers_ok request_free)) = 200"
    by (simp add: POST_ok)
  have hf: "hf_imageClassification providers_ok (FileEntry leaf_png) imageClassificationModel =
      Inr ordered_result"
    by (simp add: providers_ok_def)
  have h2: "req_formData request_free = Inr ?form \<and>
      form_get ?form ''image'' = Some (FileEntry leaf_png) \<and>
      hf_imageClassification providers_ok (FileEntry leaf_png) imageClassificationModel =
        Inr ordered_result \<and>
      status (response (POST providers_ok request_free)) = 200"
    using ok hf by (simp add: request_free_def form_get_def)
  have h3: "form_get submitted_form ''image'' = Some (FileEntry leaf_png) \<and> file_size leaf_png \<noteq> 0 \<and>
      fetch (client_of response_empty_name) (apiUrl (client_of response_empty_name) @ ''/detect-disease'')
        (uploadFormData leaf_png (geminiKey initial_page_state)) = Inr response_empty_name \<and>
      ok response_empty_name \<and> json response_empty_name = Inr (JObj ?nameless) \<and>
      (map_of ?nameless ''diseaseName'' = None \<or> map_of ?nameless ''diseaseName'' = Some (JStr []))"
    by (simp add: submitted_form_def form_get_def leaf_png_def client_of_def response_empty_name_def)
  have h4: "shows_valid_report initial_page_state \<and>
      diseaseInfo (handleSubmit (client_of response_full) initial_page_state submitted_form) =
        Some report_full"
    using submit_full by (simp add: shows_valid_report_def initial_page_state_def)
  have first: "hd ordered_result = \<lparr> label = ''leaf rust'', score = 0.9 \<rparr>"
    by (simp add: ordered_result_def)
  from report_without_name_is_rejected_by_page
    [of request_free ?form "FileEntry leaf_png" providers_no_result "[]"
      submitted_form leaf_png "client_of response_empty_name" initial_page_state
      response_empty_name ?nameless initial_page_state "client_of response_full"
      submitted_form report_full]
    h1 h3 h4
  have a: "response (POST providers_no_result request_free) =
       \<lparr> status = 500, body = [(''error'', JStr ''Something went wrong'')] \<rparr> \<and>
     handleSubmit (client_of response_empty_name) initial_page_state submitted_form =
       initial_page_state\<lparr> isPending := False, error := Some invalid_response, diseaseInfo := None \<rparr> \<and>
     truthy (diseaseName report_full)"
    by blast
  from report_without_name_is_rejected_by_page
    [where req = request_free and form = ?form and image_entry = "FileEntry leaf_png"
      and penv = providers_ok and rs = ordered_result, THEN conjunct2, THEN conjunct1] h2
  have "map_of (body (response (POST providers_ok request_free))) ''diseaseName'' =
     Some (JStr (label (hd ordered_result)))"
    by blast
  then have b: "map_of (body (response (POST providers_ok request_free))) ''diseaseName'' =
     Some (JStr ''leaf rust'')"
    by (simp add: first)
  from a b ok h4 show ?thesis by blast
qed




lemma trim_empty_iff: "trim key = [] \<longleftrightarrow> (\<forall>c \<in> set key. isWhiteSpace c)"
proof
  assume "trim key = []"
  then have all: "\<forall>c \<in> set (dropWhile isWhiteSpace key). isWhiteSpace c"
    by (simp add: trim_def dropWhile_eq_Nil_conv)
  have "dropWhile isWhiteSpace key = []"
  proof (cases "dropWhile isWhiteSpace key")
    case (Cons c cs)
    then have "\<not> isWhiteSpace c" by (metis hd_dropWhile list.sel(1) list.distinct(1))
    with all Cons show ?thesis by simp
  qed simp
  then show "\<forall>c \<in> set key. isWhiteSpace c"
    by (simp only: dropWhile_eq_Nil_conv)
next
  assume "\<forall>c \<in> set key. isWhiteSpace c"
  then have "dropWhile isWhiteSpace key = []" by (simp only: dropWhile_eq_Nil_conv)
  then show "trim key = []" by (simp only: trim_def rev.simps dropWhile.simps)
qed

lemma upload_api_key:
  "form_get (uploadFormData imageFile key) ''api_key'' =
     (if trim key = [] then None else Some (TextEntry (toUSVString key)))"
proof -
  have "trim [] = []" by (simp add: trim_def)
  then have "key = [] \<Longrightarrow> trim key = []" by simp
  then show ?thesis by (auto simp: uploadFormData_def form_get_def)
qed

lemma toUSVString_no_surrogate:
  "\<forall>c \<in> set key. \<not> isHighSurrogate c \<and> \<not> isLowSurrogate c \<Longrightarrow> toUSVString key = key"
  by (induction key rule: toUSVString.induct) auto

lemma upload_blank:
  assumes "\<forall>c \<in> set key. isWhiteSpace c"
  shows "uploadFormData imageFile key = [(''image'', FileEntry imageFile)]"
  using assms by (simp add: uploadFormData_def trim_empty_iff [symmetric])

text \<open>
  C10. The outgoing form carries the field \<open>api_key\<close> exactly when the entered key is not
  empty after trimming, that is, when it has a character that is not whitespace; the field
  then holds the key as entered, untrimmed (as a form value, so an unpaired surrogate in
  it is sent as U+FFFD; a key without surrogates is sent unchanged). A blank key gives the
  same request as no key at all.
\<close>

theorem api_key_sent_iff_not_blank:
  "form_get (uploadFormData imageFile key) ''api_key'' =
     (if trim key = [] then None else Some (TextEntry (toUSVString key))) \<and>
   ((\<forall>c \<in> set key. \<not> isHighSurrogate c \<and> \<not> isLowSurrogate c) \<longrightarrow> toUSVString key = key) \<and>
   (trim key = [] \<longleftrightarrow> (\<forall>c \<in> set key. isWhiteSpace c)) \<and>
   ((\<forall>c \<in> set key. isWhiteSpace c) \<longrightarrow>
      uploadFormData imageFile key = uploadFormData imageFile [] \<and>
      detect_request env imageFile key = detect_request env imageFile [])"
proof (intro conjI impI)
  show "form_get (uploadFormData imageFile key) ''api_key'' =
     (if trim key = [] then None else Some (TextEntry (toUSVString key)))"
    by (rule upload_api_key)
  show "trim key = [] \<longleftrightarrow> (\<forall>c \<in> set key. isWhiteSpace c)"
    by (rule trim_empty_iff)
next
  assume "\<forall>c \<in> set key. \<not> isHighSurrogate c \<and> \<not> isLowSurrogate c"
  then show "toUSVString key = key" by (rule toUSVString_no_surrogate)
next
  assume blank: "\<forall>c \<in> set key. isWhiteSpace c"
  show same: "uploadFormData imageFile key = uploadFormData imageFile []"
    by (simp add: upload_blank [OF blank] upload_blank [of "[]"])
  show "detect_request env imageFile key = detect_request env imageFile []"
    by (simp add: detect_request_def same)
qed

lemma blank_key_blank: "\<forall>c \<in> set blank_key. isWhiteSpace c"
  by (simp add: blank_key_def isWhiteSpace_def)

lemma trim_padded_key: "trim padded_key = [0x41, 0x49, 0x7A, 0x61]"
  by (simp add: padded_key_def trim_def isWhiteSpace_def)

lemma no_surrogate_padded_key:
  "\<forall>c \<in> set padded_key. \<not> isHighSurrogate c \<and> \<not> isLowSurrogate c"
  by (simp add: padded_key_def isHighSurrogate_def isLowSurrogate_def)

theorem api_key_sent_iff_not_blank_witness:
  "list_all isWhiteSpace blank_key \<and>
   form_get (uploadFormData leaf_png blank_key) ''api_key'' = None \<and>
   uploadFormData leaf_png blank_key = [(''image'', FileEntry leaf_png)] \<and>
   trim padded_key \<noteq> [] \<and>
   form_get (uploadFormData leaf_png padded_key) ''api_key'' = Some (TextEntry padded_key) \<and>
   trim unpaired_key \<noteq> [] \<and>
   form_get (uploadFormData leaf_png unpaired_key) ''api_key'' = Some (TextEntry [0x41, 0xFFFD])"
proof -
  have "uploadFormData leaf_png [] = [(''image'', FileEntry leaf_png)]"
    by (simp add: uploadFormData_def)
  with api_key_sent_iff_not_blank [of leaf_png blank_key] blank_key_blank
  have "form_get (uploadFormData leaf_png blank_key) ''api_key'' = None"
    and "uploadFormData leaf_png blank_key = [(''image'', FileEntry leaf_png)]"
    by (simp_all add: form_get_def)
  moreover have "trim padded_key \<noteq> []" by (simp add: trim_padded_key)
  moreover from this api_key_sent_iff_not_blank [of leaf_png padded_key] no_surrogate_padded_key
  have "form_get (uploadFormData leaf_png padded_key) ''api_key'' = Some (TextEntry padded_key)"
    by simp
  moreover have unpaired: "trim unpaired_key \<noteq> []"
    by (simp add: unpaired_key_def trim_def isWhiteSpace_def)
  moreover have "toUSVString unpaired_key = [0x41, 0xFFFD]"
    by (simp add: unpaired_key_def isHighSurrogate_def isLowSurrogate_def)
  with unpaired api_key_sent_iff_not_blank [of leaf_png unpaired_key]
  have "form_get (uploadFormData leaf_png unpaired_key) ''api_key'' = Some (TextEntry [0x41, 0xFFFD])"
    by simp
  ultimately show ?thesis using blank_key_blank by (simp add: list_all_iff)
qed

section \<open>Properties of the provider chain\<close>

lemma detect_no_credential: "detect enhanced free None = attempt_free [] free"
  by (simp add: detect_def)

lemma detect_fallback:
  "isl (enhanced c) \<Longrightarrow> detect enhanced free (Some c) = attempt_free [EnhancedProvider] free"
  by (auto simp: detect_def split: sum.splits)

lemma detect_enhanced:
  "enhanced c = Inr out \<Longrightarrow>
     detect enhanced free (Some c) =
       \<lparr> attempted = [EnhancedProvider], outcome = Inr (EnhancedProvider, out) \<rparr>"
  by (simp add: detect_def)

lemma attempt_free_outcome:
  "outcome (attempt_free tried free) =
     (case free of Inr out \<Rightarrow> Inr (FreeProvider, out) | Inl f \<Rightarrow> Inl AllProvidersFailedError)"
  by (simp add: attempt_free_def split: sum.splits)

lemma attempt_free_attempted: "attempted (attempt_free tried free) = tried @ [FreeProvider]"
  by (simp add: attempt_free_def split: sum.splits)

lemma detect_fails_iff:
  "isl (outcome (detect enhanced free credential)) \<longleftrightarrow>
     isl free \<and> (\<forall>c. credential = Some c \<longrightarrow> isl (enhanced c))"
proof (cases credential)
  case None
  then show ?thesis by (simp add: detect_no_credential attempt_free_outcome split: sum.splits)
next
  case (Some c)
  show ?thesis
  proof (cases "enhanced c")
    case (Inl f)
    then have "isl (enhanced c)" by simp
    with Some show ?thesis
      by (simp add: detect_fallback attempt_free_outcome split: sum.splits)
  next
    case (Inr out)
    with Some show ?thesis by (simp add: detect_enhanced)
  qed
qed

lemma POST_fails_iff:
  assumes "req_formData req = Inr fd" and "form_get fd ''image'' = Some imageFile"
    and "\<not> entry_falsy (Some imageFile)"
  shows "status (response (POST env req)) \<noteq> 200 \<longleftrightarrow> provider_failed env imageFile"
  using assms
  by (cases env req rule: POST_cases) (simp_all add: caught_response no_image_response)

lemma POST_failure_has_no_report:
  assumes "req_formData req = Inr fd" and "form_get fd ''image'' = Some imageFile"
    and "\<not> entry_falsy (Some imageFile)" and "provider_failed env imageFile"
  shows "response (POST env req) =
     \<lparr> status = 500, body = [(''error'', JStr ''Something went wrong'')] \<rparr>"
  using assms
  by (cases env req rule: POST_cases) (simp_all add: caught_response no_image_response)

text \<open>
  C1. In the provider chain, the outcome is an error exactly when every configured
  provider has failed: the free one and, if a credential was supplied, the enhanced one.
  When the enhanced provider fails and the free one succeeds, the outcome is the free
  provider's output; when all fail, it is \<open>AllProvidersFailedError\<close> and holds no output. The
  route handler, which has the one provider pipeline, answers a request that carries an
  image with an error exactly when that pipeline fails, and then with the error message
  alone.
\<close>

theorem error_iff_all_providers_failed:
  "(isl (outcome (detect enhanced free credential)) \<longleftrightarrow>
      isl free \<and> (\<forall>c. credential = Some c \<longrightarrow> isl (enhanced c))) \<and>
   (credential = Some c \<and> isl (enhanced c) \<and> free = Inr out \<longrightarrow>
      outcome (detect enhanced free credential) = Inr (FreeProvider, out)) \<and>
   (isl (outcome (detect enhanced free credential)) \<longrightarrow>
      outcome (detect enhanced free credential) = Inl AllProvidersFailedError) \<and>
   (req_formData req = Inr fd \<and> form_get fd ''image'' = Some imageFile \<and>
      \<not> entry_falsy (Some imageFile) \<longrightarrow>
        (status (response (POST env req)) \<noteq> 200 \<longleftrightarrow> provider_failed env imageFile) \<and>
        (provider_failed env imageFile \<longrightarrow>
           response (POST env req) =
             \<lparr> status = 500, body = [(''error'', JStr ''Something went wrong'')] \<rparr>))"
proof (intro conjI impI)
  show "isl (outcome (detect enhanced free credential)) \<longleftrightarrow>
      isl free \<and> (\<forall>c. credential = Some c \<longrightarrow> isl (enhanced c))"
    by (rule detect_fails_iff)
next
  assume "credential = Some c \<and> isl (enhanced c) \<and> free = Inr out"
  then show "outcome (detect enhanced free credential) = Inr (FreeProvider, out)"
    by (simp add: detect_fallback attempt_free_outcome)
next
  assume "isl (outcome (detect enhanced free credential))"
  then show "outcome (detect enhanced free credential) = Inl AllProvidersFailedError"
    by (cases "outcome (detect enhanced free credential)") (simp_all, metis chain_error.exhaust)
next
  assume a: "req_formData req = Inr fd \<and> form_get fd ''image'' = Some imageFile \<and>
      \<not> entry_falsy (Some imageFile)"
  then show "status (response (POST env req)) \<noteq> 200 \<longleftrightarrow> provider_failed env imageFile"
    by (intro POST_fails_iff [where fd = fd]) simp_all
  assume "provider_failed env imageFile"
  with a show "response (POST env req) =
      \<lparr> status = 500, body = [(''error'', JStr ''Something went wrong'')] \<rparr>"
    by (intro POST_failure_has_no_report [where fd = fd and imageFile = imageFile]) simp_all
qed

theorem error_iff_all_providers_failed_witness:
  "outcome (detect enhanced_rejects free_answers (Some ''AIza'')) = Inr (FreeProvider, ''leaf rust'') \<and>
   outcome (detect enhanced_rejects free_times_out (Some ''AIza'')) = Inl AllProvidersFailedError \<and>
   provider_failed providers_down (FileEntry leaf_png) \<and>
   response (POST providers_down request_with_key) =
     \<lparr> status = 500, body = [(''error'', JStr ''Something went wrong'')] \<rparr>"
proof -
  have h: "req_formData request_with_key =
        Inr [(''image'', FileEntry leaf_png), (''api_key'', TextEntry [0x41, 0x49, 0x7A, 0x61])] \<and>
      form_get [(''image'', FileEntry leaf_png), (''api_key'', TextEntry [0x41, 0x49, 0x7A, 0x61])] ''image'' =
        Some (FileEntry leaf_png) \<and>
      \<not> entry_falsy (Some (FileEntry leaf_png))"
    by (simp add: request_with_key_def form_get_def)
  have failed: "provider_failed providers_down (FileEntry leaf_png)"
    by (simp add: provider_failed_def providers_down_def)
  have "outcome (detect enhanced_rejects free_answers (Some ''AIza'')) = Inr (FreeProvider, ''leaf rust'')"
    using error_iff_all_providers_failed
      [of enhanced_rejects free_answers "Some ''AIza''" "''AIza''" "''leaf rust''"]
    by (simp add: enhanced_rejects_def free_answers_def)
  moreover have "outcome (detect enhanced_rejects free_times_out (Some ''AIza'')) = Inl AllProvidersFailedError"
    using error_iff_all_providers_failed [of enhanced_rejects free_times_out "Some ''AIza''"]
    by (simp add: enhanced_rejects_def free_times_out_def)
  moreover have "response (POST providers_down request_with_key) =
     \<lparr> status = 500, body = [(''error'', JStr ''Something went wrong'')] \<rparr>"
    using error_iff_all_providers_failed
      [where req = request_with_key and imageFile = "FileEntry leaf_png" and env = providers_down
        and fd = "[(''image'', FileEntry leaf_png), (''api_key'', TextEntry [0x41, 0x49, 0x7A, 0x61])]"
        and enhanced = enhanced_rejects and free = free_answers and credential = None]
      h failed
    by blast
  ultimately show ?thesis using failed by blast
qed

lemma map_of_without:
  "k \<noteq> k' \<Longrightarrow> map_of (filter (\<lambda>(a, v). a \<noteq> k') fd) k = map_of fd k"
  by (induction fd) auto

lemma POST_reads_image_only:
  assumes "form_get fd ''image'' = form_get fd' ''image''"
  shows "POST env \<lparr> req_formData = Inr fd \<rparr> = POST env \<lparr> req_formData = Inr fd' \<rparr>"
  using assms by (simp add: POST_def)

lemma POST_ignores_api_key:
  "POST env \<lparr> req_formData = Inr (filter (\<lambda>(k, v). k \<noteq> ''api_key'') fd) \<rparr> =
   POST env \<lparr> req_formData = Inr fd \<rparr>"
  by (rule POST_reads_image_only) (simp add: form_get_def map_of_without)

text \<open>
  C2. In the provider chain, the enhanced provider is among the attempted providers only
  if a credential was supplied; with no credential, the free provider alone is attempted
  and the outcome is its own. The route handler does not read the credential: its result
  is the same with the field \<open>api_key\<close> removed from the form. The page sends no \<open>api_key\<close>
  field when the entered key is blank.
\<close>

theorem enhanced_only_with_credential:
  "(EnhancedProvider \<in> set (attempted (detect enhanced free credential)) \<longrightarrow> credential \<noteq> None) \<and>
   (credential = None \<longrightarrow>
      attempted (detect enhanced free credential) = [FreeProvider] \<and>
      outcome (detect enhanced free credential) =
        (case free of Inr out \<Rightarrow> Inr (FreeProvider, out) | Inl f \<Rightarrow> Inl AllProvidersFailedError)) \<and>
   POST env \<lparr> req_formData = Inr (filter (\<lambda>(k, v). k \<noteq> ''api_key'') fd) \<rparr> =
     POST env \<lparr> req_formData = Inr fd \<rparr> \<and>
   ((\<forall>c \<in> set key. isWhiteSpace c) \<longrightarrow>
      form_get (uploadFormData imageFile key) ''api_key'' = None)"
proof (intro conjI impI)
  assume "EnhancedProvider \<in> set (attempted (detect enhanced free credential))"
  then show "credential \<noteq> None"
    by (cases credential) (simp_all add: detect_no_credential attempt_free_attempted)
next
  assume none: "credential = None"
  then show "attempted (detect enhanced free credential) = [FreeProvider]"
    by (simp add: detect_no_credential attempt_free_attempted)
  from none show "outcome (detect enhanced free credential) =
      (case free of Inr out \<Rightarrow> Inr (FreeProvider, out) | Inl f \<Rightarrow> Inl AllProvidersFailedError)"
    by (simp add: detect_no_credential attempt_free_outcome)
next
  show "POST env \<lparr> req_formData = Inr (filter (\<lambda>(k, v). k \<noteq> ''api_key'') fd) \<rparr> =
     POST env \<lparr> req_formData = Inr fd \<rparr>"
    by (rule POST_ignores_api_key)
next
  assume "\<forall>c \<in> set key. isWhiteSpace c"
  then show "form_get (uploadFormData imageFile key) ''api_key'' = None"
    by (simp add: upload_api_key trim_empty_iff)
qed

theorem enhanced_only_with_credential_witness:
  "attempted (detect enhanced_answers free_answers None) = [FreeProvider] \<and>
   outcome (detect enhanced_answers free_answers None) = Inr (FreeProvider, ''leaf rust'') \<and>
   EnhancedProvider \<in> set (attempted (detect enhanced_answers free_answers (Some ''AIza''))) \<and>
   POST providers_ok request_free = POST providers_ok request_with_key \<and>
   list_all isWhiteSpace blank_key \<and>
   form_get (uploadFormData leaf_png blank_key) ''api_key'' = None"
proof -
  have free: "attempted (detect enhanced_answers free_answers None) = [FreeProvider] \<and>
      outcome (detect enhanced_answers free_answers None) = Inr (FreeProvider, ''leaf rust'')"
    using enhanced_only_with_credential [of enhanced_answers free_answers None]
    by (simp add: free_answers_def)
  have enh: "EnhancedProvider \<in> set (attempted (detect enhanced_answers free_answers (Some ''AIza'')))"
    by (simp add: detect_enhanced [where out = "''structured completion''"] enhanced_answers_def)
  have "filter (\<lambda>(k, v). k \<noteq> ''api_key'')
          [(''image'', FileEntry leaf_png), (''api_key'', TextEntry [0x41, 0x49, 0x7A, 0x61])] =
        [(''image'', FileEntry leaf_png)]"
    by simp
  with enhanced_only_with_credential
    [where env = providers_ok
      and fd = "[(''image'', FileEntry leaf_png), (''api_key'', TextEntry [0x41, 0x49, 0x7A, 0x61])]"
      and enhanced = enhanced_answers and free = free_answers and credential = None]
  have same: "POST providers_ok request_free = POST providers_ok request_with_key"
    by (simp add: request_free_def request_with_key_def)
  have "form_get (uploadFormData leaf_png blank_key) ''api_key'' = None"
    using enhanced_only_with_credential
      [where key = blank_key and imageFile = leaf_png
        and enhanced = enhanced_answers and free = free_answers and credential = None]
      blank_key_blank
    by blast
  with free enh same blank_key_blank show ?thesis by (simp add: list_all_iff)
qed

end
